theory Spec2Isabelle
  imports Complex_Main "HOL-Library.Multiset" "HOL-Library.Char_ord" "HOL-Library.List_Lexorder"
begin

section \<open>Slot records (src/slot\_checker.py, class AppointmentSlot)\<close>

text \<open>
  The dataclass has six fields. \<open>date\<close> and \<open>time\<close> are declared \<open>str\<close>, the other
  four \<open>Optional[str]\<close> with default \<open>None\<close>; the record keeps the declared types.
\<close>

record AppointmentSlot =
  date :: string
  time :: string
  provider :: "string option"
  department :: "string option"
  department_id :: "string option"
  slot_id :: "string option"

text \<open>
  \<open>__hash__\<close> and \<open>__eq__\<close> both go through the tuple
  \<open>(self.date, self.time, self.department_id)\<close>. \<open>slot_key\<close> is that tuple and
  \<open>slot_eq\<close> is \<open>__eq__\<close> on two slots (the \<open>isinstance\<close> test holds for every value
  of the record type): Python compares the two tuples component by component.
\<close>

definition slot_key :: "AppointmentSlot \<Rightarrow> string \<times> string \<times> string option" where
  "slot_key s = (date s, time s, department_id s)"

definition slot_eq :: "AppointmentSlot \<Rightarrow> AppointmentSlot \<Rightarrow> bool" where
  "slot_eq a b = (date a = date b \<and> time a = time b \<and> department_id a = department_id b)"

section \<open>Python sets of slots\<close>

text \<open>
  A Python \<open>set\<close> of slots is represented by the list of its elements in iteration
  order. \<open>x in s\<close> looks for an element that \<open>__eq__\<close> accepts; \<open>set(xs)\<close> adds the
  elements of \<open>xs\<close> one after the other, and adding an element equal to one already
  stored leaves the set as it is.
\<close>

primrec slot_in :: "AppointmentSlot \<Rightarrow> AppointmentSlot list \<Rightarrow> bool" where
  "slot_in s [] = False"
| "slot_in s (x # xs) = (slot_eq x s \<or> slot_in s xs)"

definition set_add :: "AppointmentSlot list \<Rightarrow> AppointmentSlot \<Rightarrow> AppointmentSlot list" where
  "set_add st s = (if slot_in s st then st else st @ [s])"

definition py_set :: "AppointmentSlot list \<Rightarrow> AppointmentSlot list" where
  "py_set xs = foldl set_add [] xs"

section \<open>Reconciliation (src/slot\_checker.py, compare\_slots)\<close>

record comparison =
  new_slots :: "AppointmentSlot list"
  removed_slots :: "AppointmentSlot list"
  unchanged_slots :: "AppointmentSlot list"

definition compare_slots :: "AppointmentSlot list \<Rightarrow> AppointmentSlot list \<Rightarrow> comparison" where
  "compare_slots current previous =
     (let current_set = py_set current in
      \<lparr> new_slots = filter (\<lambda>s. \<not> slot_in s previous) current,
        removed_slots = filter (\<lambda>s. \<not> slot_in s current_set) previous,
        unchanged_slots = filter (\<lambda>s. slot_in s previous) current \<rparr>)"

section \<open>JSON values and Python exceptions\<close>

text \<open>
  What \<open>json.load\<close> returns and \<open>json.dump\<close> accepts: \<open>None\<close>, booleans, integers,
  floats, strings, lists, and dictionaries with string keys. A dictionary is the list of
  its items in insertion order. \<open>truthy\<close> is Python's truth value, the test behind
  \<open>if x\<close>, \<open>not x\<close> and \<open>x or y\<close>.
\<close>

datatype json =
    JNull
  | JBool bool
  | JInt int
  | JFloat real
  | JStr string
  | JList "json list"
  | JDict "(string \<times> json) list"

datatype py_error =
    AttributeError
  | TypeError
  | ValueError
  | OverflowError
  | JSONDecodeError
  | IOError
  | UnicodeDecodeError

fun truthy :: "json \<Rightarrow> bool" where
  "truthy JNull = False"
| "truthy (JBool b) = b"
| "truthy (JInt i) = (i \<noteq> 0)"
| "truthy (JFloat r) = (r \<noteq> 0)"
| "truthy (JStr s) = (s \<noteq> [])"
| "truthy (JList xs) = (xs \<noteq> [])"
| "truthy (JDict kvs) = (kvs \<noteq> [])"

text \<open>
  \<open>d.get(k, default)\<close> raises AttributeError on a value that is not a dictionary.
  \<open>d[k] = v\<close> replaces the value of a key in place and puts a new key last;
  \<open>d.update(other)\<close> stores the items of \<open>other\<close> one after the other.
  \<open>xs[-n:]\<close> is the list of the last \<open>n\<close> elements (all of \<open>xs\<close> when it is shorter).
  \<open>d[k]\<close> reads a key; it raises KeyError on an absent key, and the two places that
  use it read a key that has just been stored or is one of the dictionary's own keys.
\<close>

fun dict_get :: "json \<Rightarrow> string \<Rightarrow> json \<Rightarrow> py_error + json" where
  "dict_get (JDict kvs) k dflt = Inr (case map_of kvs k of None \<Rightarrow> dflt | Some v \<Rightarrow> v)"
| "dict_get _ k dflt = Inl AttributeError"

fun dict_setitem :: "('k \<times> 'v) list \<Rightarrow> 'k \<Rightarrow> 'v \<Rightarrow> ('k \<times> 'v) list" where
  "dict_setitem [] k v = [(k, v)]"
| "dict_setitem ((k', v') # kvs) k v =
     (if k' = k then (k, v) # kvs else (k', v') # dict_setitem kvs k v)"

definition dict_getitem :: "('k \<times> 'v) list \<Rightarrow> 'k \<Rightarrow> 'v" where
  "dict_getitem d k = the (map_of d k)"

definition dict_update :: "('k \<times> 'v) list \<Rightarrow> ('k \<times> 'v) list \<Rightarrow> ('k \<times> 'v) list" where
  "dict_update d other = foldl (\<lambda>acc (k, v). dict_setitem acc k v) d other"

definition last_n :: "nat \<Rightarrow> 'a list \<Rightarrow> 'a list" where
  "last_n n xs = drop (length xs - n) xs"

text \<open>\<open>AppointmentSlot.to_dict\<close> is \<open>asdict(self)\<close>: the fields in declaration order.\<close>

definition opt_json :: "string option \<Rightarrow> json" where
  "opt_json x = (case x of None \<Rightarrow> JNull | Some s \<Rightarrow> JStr s)"

definition to_dict :: "AppointmentSlot \<Rightarrow> json" where
  "to_dict s = JDict
     [(''date'', JStr (date s)), (''time'', JStr (time s)),
      (''provider'', opt_json (provider s)), (''department'', opt_json (department s)),
      (''department_id'', opt_json (department_id s)), (''slot_id'', opt_json (slot_id s))]"

section \<open>History store (src/slot\_checker.py, class SlotHistory)\<close>

text \<open>
  The state of the history file is what \<open>load\<close> can observe of it: the file does not
  exist, or \<open>open\<close> and \<open>json.load\<close> return a value, or they raise an exception.
  \<open>load\<close> catches \<open>json.JSONDecodeError\<close> and \<open>IOError\<close> and lets any other
  exception through (a file whose bytes are not valid text makes \<open>f.read()\<close> raise
  UnicodeDecodeError, which is neither of the two).

  \<open>save\<close> opens the file for writing and dumps \<open>data\<close>; nothing is caught. Whether
  that works depends on the file system (the path may be a directory, the disk full),
  so the outcome of the write is an input of each call: \<open>WriteOk\<close>, after which the
  file holds the JSON text of \<open>data\<close> and a later \<open>json.load\<close> reads it back as
  \<open>data\<close>, or \<open>WriteFails e\<close>, where \<open>open\<close> or \<open>json.dump\<close> raises \<open>e\<close> and the
  exception leaves \<open>save\<close>.
\<close>

datatype read_result = Parsed json | ReadFails py_error

datatype history_file = Missing | Present read_result

datatype write_result = WriteOk | WriteFails py_error

definition default_history :: json where
  "default_history = JDict [(''last_check'', JNull), (''slots'', JList []), (''checks'', JList [])]"

fun load :: "history_file \<Rightarrow> py_error + json" where
  "load Missing = Inr default_history"
| "load (Present (Parsed v)) = Inr v"
| "load (Present (ReadFails e)) =
     (if e = JSONDecodeError \<or> e = IOError then Inr default_history else Inl e)"

definition save :: "write_result \<Rightarrow> json \<Rightarrow> py_error + history_file" where
  "save w data = (case w of WriteOk \<Rightarrow> Inr (Present (Parsed data)) | WriteFails e \<Rightarrow> Inl e)"

text \<open>
  \<open>update\<close> reads the clock twice (\<open>datetime.utcnow().isoformat()\<close>); the two readings
  are the parameters \<open>now1\<close> and \<open>now2\<close>, and \<open>w\<close> is the outcome of the write. \<open>history.get\<close> raises AttributeError when
  the loaded value is not a dictionary, and \<open>checks.append\<close> raises it when the stored
  \<open>checks\<close> is not a list; the last case of the inner \<open>case\<close> is never reached,
  since \<open>dict_get\<close> has already failed there.
\<close>

definition check_record :: "string \<Rightarrow> AppointmentSlot list \<Rightarrow> json" where
  "check_record now current_slots =
     JDict [(''timestamp'', JStr now), (''slot_count'', JInt (int (length current_slots)))]"

definition update ::
  "string \<Rightarrow> string \<Rightarrow> write_result \<Rightarrow> history_file \<Rightarrow> AppointmentSlot list \<Rightarrow> json option
     \<Rightarrow> py_error + history_file" where
  "update now1 now2 w file current_slots raw_response =
     (case load file of
        Inl e \<Rightarrow> Inl e
      | Inr history \<Rightarrow>
          (case dict_get history ''checks'' (JList []) of
             Inl e \<Rightarrow> Inl e
           | Inr (JList cs) \<Rightarrow>
               (case history of
                  JDict h \<Rightarrow>
                    let checks = last_n 100 (cs @ [check_record now1 current_slots]);
                        h1 = dict_update h
                               [(''last_check'', JStr now2),
                                (''slots'', JList (map to_dict current_slots)),
                                (''checks'', JList checks)];
                        h2 = (case raw_response of
                                None \<Rightarrow> h1
                              | Some r \<Rightarrow>
                                  if truthy r then dict_setitem h1 ''last_raw_response'' r
                                  else h1)
                    in save w (JDict h2)
                | _ \<Rightarrow> Inl AttributeError)
           | Inr _ \<Rightarrow> Inl AttributeError))"





definition persisted_checks :: "history_file \<Rightarrow> json list option" where
  "persisted_checks file =
     (case load file of
        Inr (JDict h) \<Rightarrow>
          (case map_of h ''checks'' of
             None \<Rightarrow> Some []
           | Some (JList cs) \<Rightarrow> Some cs
           | Some _ \<Rightarrow> None)
      | _ \<Rightarrow> None)"

section \<open>Notification body (src/notifications.py, GitHubNotifier.\_build\_issue\_body)\<close>

text \<open>
  The body is a list of lines joined by newlines. The first loop fills the dictionary
  \<open>slots_by_date\<close>, one list per date in order of arrival (\<open>group_add\<close> is one round of
  it). The second loop goes through \<open>sorted(slots_by_date.keys())\<close> and, for each date,
  through \<open>sorted(slots_by_date[date], key=lambda s: s.time)\<close>. Python compares strings
  code point by code point, a proper prefix first, which is the order of \<open>string\<close> here;
  \<open>sorted\<close> is stable, and so is \<open>sort_key\<close>. \<open>if slot.provider\<close> holds for a string
  that is neither \<open>None\<close> nor empty. The time stamp
  \<open>datetime.utcnow().strftime('%Y-%m-%d %H:%M:%S')\<close> is the parameter \<open>now\<close>.
\<close>

fun str_join :: "string \<Rightarrow> string list \<Rightarrow> string" where
  "str_join sep [] = []"
| "str_join sep [x] = x"
| "str_join sep (x # y # ys) = x @ sep @ str_join sep (y # ys)"

definition str_truthy :: "string option \<Rightarrow> bool" where
  "str_truthy x = (case x of None \<Rightarrow> False | Some s \<Rightarrow> s \<noteq> [])"

definition slot_line :: "AppointmentSlot \<Rightarrow> string" where
  "slot_line slot =
     (let details = [''**'' @ time slot @ ''**'']
            @ (if str_truthy (provider slot) then [''Provider: '' @ the (provider slot)] else [])
            @ (if str_truthy (department slot) then [''Dept: '' @ the (department slot)] else [])
      in ''- '' @ str_join '' | '' details)"

definition group_add ::
  "(string \<times> AppointmentSlot list) list \<Rightarrow> AppointmentSlot \<Rightarrow> (string \<times> AppointmentSlot list) list" where
  "group_add slots_by_date slot =
     (let d1 = (if map_of slots_by_date (date slot) = None
                then dict_setitem slots_by_date (date slot) [] else slots_by_date)
      in dict_setitem d1 (date slot) (dict_getitem d1 (date slot) @ [slot]))"

definition group_by_date :: "AppointmentSlot list \<Rightarrow> (string \<times> AppointmentSlot list) list" where
  "group_by_date slots = foldl group_add [] slots"

definition date_section :: "string \<times> AppointmentSlot list \<Rightarrow> string list" where
  "date_section g = (''#### '' @ fst g) # map slot_line (snd g) @ ['''']"

definition header_lines :: "string \<Rightarrow> string list" where
  "header_lines now =
     [''## New Appointment Slots Detected'', '''',
      ''**Detected at:** '' @ now @ '' UTC'', '''',
      ''### Available Slots'', '''']"

definition footer_lines :: "string list" where
  "footer_lines =
     [''---'', '''', ''### Quick Links'', '''',
      ''[Book Appointment](https://ucsfmychart.ucsfmedicalcenter.org/UCSFMyChart/Scheduling/Embedded)?dept=3202010,3202011&vt=1148'',
      '''', ''---'',
      ''*This issue was automatically created by the appointment checker.*'']"

definition sorted_groups :: "AppointmentSlot list \<Rightarrow> (string \<times> AppointmentSlot list) list" where
  "sorted_groups slots =
     (let slots_by_date = group_by_date slots
      in map (\<lambda>d. (d, sort_key time (dict_getitem slots_by_date d)))
           (sort (map fst slots_by_date)))"

definition build_issue_body :: "string \<Rightarrow> AppointmentSlot list \<Rightarrow> string" where
  "build_issue_body now slots =
     str_join [CHR 0x0A]
       (header_lines now @ concat (map date_section (sorted_groups slots)) @ footer_lines)"

subsection \<open>Clock time of a time string\<close>

text \<open>
  The source never parses a time string. To state "sorted by time-of-day" as the
  specification words it, \<open>clock_minutes\<close> reads a string of the form of the
  specification's example, \<open>8:30 AM\<close> (hour 1 to 12, a colon, two digits of minutes, a
  space, AM or PM), as minutes after midnight, and \<open>clock_sorted\<close> says that a list of
  slots is in ascending clock order.
\<close>

definition digit_of :: "char \<Rightarrow> nat option" where
  "digit_of c = (if CHR ''0'' \<le> c \<and> c \<le> CHR ''9'' then Some (of_char c - 48) else None)"

fun digits_acc :: "nat \<Rightarrow> string \<Rightarrow> nat option" where
  "digits_acc n [] = Some n"
| "digits_acc n (c # cs) =
     (case digit_of c of None \<Rightarrow> None | Some d \<Rightarrow> digits_acc (10 * n + d) cs)"

definition clock_minutes :: "string \<Rightarrow> nat option" where
  "clock_minutes s =
     (let hh = takeWhile (\<lambda>c. c \<noteq> CHR '':'') s;
          rest = drop (length hh + 1) s;
          mm = take 2 rest;
          suffix = drop 2 rest
      in if hh \<noteq> [] \<and> length mm = 2 \<and> (suffix = '' AM'' \<or> suffix = '' PM'')
         then (case (digits_acc 0 hh, digits_acc 0 mm) of
                 (Some h, Some m) \<Rightarrow>
                   if 1 \<le> h \<and> h \<le> 12 \<and> m < 60
                   then Some ((h mod 12 + (if suffix = '' PM'' then 12 else 0)) * 60 + m)
                   else None
               | _ \<Rightarrow> None)
         else None)"

fun clock_sorted :: "AppointmentSlot list \<Rightarrow> bool" where
  "clock_sorted [] = True"
| "clock_sorted [x] = True"
| "clock_sorted (x # y # ys) =
     (case (clock_minutes (time x), clock_minutes (time y)) of
        (Some a, Some b) \<Rightarrow> a \<le> b \<and> clock_sorted (y # ys)
      | _ \<Rightarrow> False)"

section \<open>Example values\<close>


text \<open>Two records with the same identity and different providers.\<close>

definition slot_a :: AppointmentSlot where
  "slot_a = \<lparr> date = ''2026-08-05'', time = ''8:30 AM'', provider = Some ''Dr. Rai'',
      department = None, department_id = None, slot_id = None \<rparr>"

definition slot_a' :: AppointmentSlot where
  "slot_a' = \<lparr> date = ''2026-08-05'', time = ''8:30 AM'', provider = Some ''Dr. Lee'',
      department = None, department_id = None, slot_id = None \<rparr>"

text \<open>A snapshot that carries a raw response stored earlier, and one update call.\<close>

definition history_b :: history_file where
  "history_b = Present (Parsed (JDict
     [(''last_check'', JStr ''2026-08-04T08:00:00.000002''), (''slots'', JList []),
      (''checks'', JList [JDict [(''timestamp'', JStr ''2026-08-04T08:00:00.000001''),
                                 (''slot_count'', JInt 0)]]),
      (''last_raw_response'', JDict [(''Slots'', JList [])])]))"




text \<open>Two more slots, with times as the portal writes them.\<close>

definition slot_b :: AppointmentSlot where
  "slot_b = \<lparr> date = ''2026-08-05'', time = ''10:00 AM'', provider = None,
      department = Some ''Dental Center'', department_id = Some ''3202010'', slot_id = None \<rparr>"

definition slot_c :: AppointmentSlot where
  "slot_c = \<lparr> date = ''2026-08-04'', time = ''9:00 AM'', provider = None,
      department = None, department_id = None, slot_id = None \<rparr>"

section \<open>Properties of the reconciliation engine\<close>

subsection \<open>Membership and set construction\<close>

lemma slot_eq_key: "slot_eq a b \<longleftrightarrow> slot_key a = slot_key b"
  by (simp add: slot_eq_def slot_key_def)

lemma slot_in_key: "slot_in s xs \<longleftrightarrow> slot_key s \<in> slot_key ` set xs"
  by (induction xs) (auto simp: slot_eq_key)

lemma keys_set_add: "slot_key ` set (set_add st s) = insert (slot_key s) (slot_key ` set st)"
  by (auto simp: set_add_def slot_in_key)

lemma keys_foldl_set_add:
  "slot_key ` set (foldl set_add st xs) = slot_key ` set st \<union> slot_key ` set xs"
  by (induction xs arbitrary: st) (auto simp: keys_set_add)

lemma keys_py_set: "slot_key ` set (py_set xs) = slot_key ` set xs"
  by (simp add: py_set_def keys_foldl_set_add)

lemma slot_in_py_set: "slot_in s (py_set xs) \<longleftrightarrow> slot_in s xs"
  by (simp add: slot_in_key keys_py_set)

lemma distinct_set_add:
  "distinct (map slot_key st) \<Longrightarrow> distinct (map slot_key (set_add st s))"
  by (simp add: set_add_def slot_in_key)

lemma distinct_foldl_set_add:
  "distinct (map slot_key st) \<Longrightarrow> distinct (map slot_key (foldl set_add st xs))"
  by (induction xs arbitrary: st) (simp_all add: distinct_set_add)

lemma distinct_py_set: "distinct (map slot_key (py_set xs))"
  by (simp add: py_set_def distinct_foldl_set_add)

lemma count_keys_filter:
  "count_list (map slot_key (filter (\<lambda>s. Q (slot_key s)) xs)) k =
     (if Q k then count_list (map slot_key xs) k else 0)"
  by (induction xs) auto

lemma count_distinct: "distinct ks \<Longrightarrow> count_list ks k = (if k \<in> set ks then 1 else 0)"
  by (induction ks) auto

lemma image_split_other:
  "f ` {x \<in> A. f x \<notin> f ` B} \<union> f ` {x \<in> B. f x \<in> f ` A} = f ` A"
proof (rule set_eqI, rule iffI)
  fix k assume "k \<in> f ` {x \<in> A. f x \<notin> f ` B} \<union> f ` {x \<in> B. f x \<in> f ` A}"
  then show "k \<in> f ` A" by auto
next
  fix k assume k: "k \<in> f ` A"
  show "k \<in> f ` {x \<in> A. f x \<notin> f ` B} \<union> f ` {x \<in> B. f x \<in> f ` A}"
  proof (cases "k \<in> f ` B")
    case True
    then obtain b where "b \<in> B" "k = f b" by auto
    with k show ?thesis by auto
  next
    case False
    from k obtain a where "a \<in> A" "k = f a" by auto
    with False show ?thesis by auto
  qed
qed

lemma filter_slot_eq_filter:
  "filter (slot_eq s) (filter Q xs) = filter Q (filter (slot_eq s) xs)"
  by (induction xs) auto

lemma slot_in_cong: "slot_eq s x \<Longrightarrow> slot_in x P = slot_in s P"
  by (simp add: slot_in_key slot_eq_key)

lemma filter_eq_new:
  "filter (slot_eq s) (filter (\<lambda>x. \<not> slot_in x P) C) =
     (if slot_in s P then [] else filter (slot_eq s) C)"
  by (induction C) (auto simp: slot_in_cong)

lemma filter_eq_unchanged:
  "filter (slot_eq s) (filter (\<lambda>x. slot_in x P) C) =
     (if slot_in s P then filter (slot_eq s) C else [])"
  by (induction C) (auto simp: slot_in_cong)

lemma length_filter_distinct_key:
  "distinct (map slot_key xs) \<Longrightarrow>
     length (filter (slot_eq s) xs) = (if slot_in s xs then 1 else 0)"
  by (induction xs) (auto simp: slot_eq_key slot_in_key)

lemma filter_nonempty_slot_in: "filter (slot_eq s) C \<noteq> [] \<Longrightarrow> slot_in s C"
  by (induction C) (auto simp: slot_eq_key split: if_splits)

subsection \<open>Identity and reconciliation\<close>

text \<open>
  C2. Two slot records are equal under \<open>__eq__\<close> (the equality that set and hash
  membership use) exactly when their tuples (date, time, department\_id) are equal; a
  record stays equal to itself when its provider, department and slot\_id are replaced
  by any other values.
\<close>

theorem slot_eq_iff_identity_key:
  "(slot_eq a b \<longleftrightarrow> (date a, time a, department_id a) = (date b, time b, department_id b))
   \<and> slot_eq a (a\<lparr>provider := p, department := d, slot_id := i\<rparr>)
   \<and> slot_key (a\<lparr>provider := p, department := d, slot_id := i\<rparr>) = slot_key a"
  by (simp add: slot_eq_def slot_key_def)

text \<open>
  C1. Partition completeness: for every current list \<open>C\<close> and previous set \<open>P\<close>, the
  identity keys of \<open>new\<close> and \<open>unchanged\<close> together are the identity keys of \<open>C\<close>, and
  the identity keys of \<open>removed\<close> and \<open>unchanged\<close> together are those of \<open>P\<close>.
\<close>

theorem compare_slots_partition:
  "slot_key ` set (new_slots (compare_slots C P)) \<union>
     slot_key ` set (unchanged_slots (compare_slots C P)) = slot_key ` set C
   \<and> slot_key ` set (removed_slots (compare_slots C P)) \<union>
     slot_key ` set (unchanged_slots (compare_slots C P)) = slot_key ` set P"
proof -
  have a: "slot_key ` set (filter (\<lambda>s. \<not> slot_in s P) C) \<union>
           slot_key ` set (filter (\<lambda>s. slot_in s P) C) = slot_key ` set C"
    by auto
  have b: "slot_key ` set (filter (\<lambda>s. \<not> slot_in s (py_set C)) P) \<union>
           slot_key ` set (filter (\<lambda>s. slot_in s P) C) = slot_key ` set P"
    using image_split_other [of slot_key "set P" "set C"]
    by (simp add: slot_in_key keys_py_set)
  show ?thesis
    using a b by (simp add: compare_slots_def Let_def)
qed

text \<open>
  C6. No deduplication: when the current list holds two or more records equal to \<open>s\<close>
  (same identity key), every one of them is kept, in order, in \<open>new\<close> if the identity
  is absent from the previous set and in \<open>unchanged\<close> if it is present, so the same
  identity occurs there as often as in the input; the membership structure
  \<open>set(current)\<close> holds the identity once.
\<close>

theorem compare_slots_keeps_duplicates:
  assumes "2 \<le> length (filter (slot_eq s) C)"
  shows "filter (slot_eq s) (new_slots (compare_slots C P)) =
           (if slot_in s P then [] else filter (slot_eq s) C)
         \<and> filter (slot_eq s) (unchanged_slots (compare_slots C P)) =
           (if slot_in s P then filter (slot_eq s) C else [])
         \<and> length (filter (slot_eq s) (py_set C)) = 1"
proof -
  from assms have "filter (slot_eq s) C \<noteq> []" by auto
  then have "slot_in s (py_set C)"
    by (simp add: slot_in_py_set filter_nonempty_slot_in)
  then have "length (filter (slot_eq s) (py_set C)) = 1"
    by (simp add: length_filter_distinct_key distinct_py_set)
  then show ?thesis
    by (simp add: compare_slots_def Let_def filter_eq_new filter_eq_unchanged del: filter_filter)
qed

theorem compare_slots_keeps_duplicates_witness:
  "new_slots (compare_slots [slot_a, slot_a'] []) = [slot_a, slot_a']
   \<and> unchanged_slots (compare_slots [slot_a, slot_a'] [slot_a']) = [slot_a, slot_a']
   \<and> length (filter (slot_eq slot_a) (py_set [slot_a, slot_a'])) = 1"
proof -
  have h: "2 \<le> length (filter (slot_eq slot_a) [slot_a, slot_a'])"
    by (simp add: slot_eq_def slot_a_def slot_a'_def)
  have e: "filter (slot_eq slot_a) [slot_a, slot_a'] = [slot_a, slot_a']"
    by (simp add: slot_eq_def slot_a_def slot_a'_def)
  have n: "new_slots (compare_slots [slot_a, slot_a'] []) = [slot_a, slot_a']"
    by (simp add: compare_slots_def Let_def)
  show ?thesis
    using compare_slots_keeps_duplicates [OF h, of "[]"]
      compare_slots_keeps_duplicates [OF h, of "[slot_a']"]
    by (simp add: e n compare_slots_def Let_def slot_eq_def slot_a_def slot_a'_def)
qed
section \<open>Properties of the history store\<close>

lemma map_of_dict_setitem:
  "map_of (dict_setitem kvs k v) k' = (if k' = k then Some v else map_of kvs k')"
  by (induction kvs k v rule: dict_setitem.induct) auto




lemma persisted_checks_cases:
  assumes "persisted_checks hf = Some cs"
  obtains h where "load hf = Inr (JDict h)"
    and "dict_get (JDict h) ''checks'' (JList []) = Inr (JList cs)"
  using assms
  by (auto simp: persisted_checks_def split: sum.splits json.splits option.splits)

lemma update_result:
  assumes "persisted_checks hf = Some cs"
  shows "\<exists>h h'. load hf = Inr (JDict h) \<and>
    (\<forall>w. update now1 now2 w hf sl raw = save w (JDict h')) \<and>
    map_of h' ''checks'' = Some (JList (last_n 100 (cs @ [check_record now1 sl]))) \<and>
    map_of h' ''last_check'' = Some (JStr now2) \<and>
    map_of h' ''slots'' = Some (JList (map to_dict sl)) \<and>
    (\<forall>k. k \<notin> {''last_check'', ''slots'', ''checks'', ''last_raw_response''}
            \<longrightarrow> map_of h' k = map_of h k) \<and>
    (raw = None \<longrightarrow> map_of h' ''last_raw_response'' = map_of h ''last_raw_response'')"
proof -
  from assms obtain h where h: "load hf = Inr (JDict h)"
    and g: "dict_get (JDict h) ''checks'' (JList []) = Inr (JList cs)"
    by (rule persisted_checks_cases)
  define h1 where "h1 = dict_update h
     [(''last_check'', JStr now2), (''slots'', JList (map to_dict sl)),
      (''checks'', JList (last_n 100 (cs @ [check_record now1 sl])))]"
  define h2 where "h2 = (case raw of None \<Rightarrow> h1
     | Some r \<Rightarrow> if truthy r then dict_setitem h1 ''last_raw_response'' r else h1)"
  have u: "\<forall>w. update now1 now2 w hf sl raw = save w (JDict h2)"
    using h g unfolding update_def h1_def h2_def Let_def
    by (simp del: dict_get.simps)
  have m1: "map_of h1 k = (if k = ''checks'' then Some (JList (last_n 100 (cs @ [check_record now1 sl])))
      else if k = ''slots'' then Some (JList (map to_dict sl))
      else if k = ''last_check'' then Some (JStr now2) else map_of h k)" for k
    by (simp add: h1_def dict_update_def map_of_dict_setitem)
  have m2: "k \<noteq> ''last_raw_response'' \<Longrightarrow> map_of h2 k = map_of h1 k" for k
    by (simp add: h2_def map_of_dict_setitem split: option.splits)
  have m3: "raw = None \<Longrightarrow> h2 = h1"
    by (simp add: h2_def)
  have c1: "map_of h2 ''checks'' = Some (JList (last_n 100 (cs @ [check_record now1 sl])))"
    by (simp add: m2 m1)
  have c2: "map_of h2 ''last_check'' = Some (JStr now2)"
    by (simp add: m2 m1)
  have c3: "map_of h2 ''slots'' = Some (JList (map to_dict sl))"
    by (simp add: m2 m1)
  have c4: "\<forall>k. k \<notin> {''last_check'', ''slots'', ''checks'', ''last_raw_response''}
            \<longrightarrow> map_of h2 k = map_of h k"
    by (simp add: m2 m1)
  have c5: "raw = None \<longrightarrow> map_of h2 ''last_raw_response'' = map_of h ''last_raw_response''"
    by (simp add: m3 m1)
  from h u c1 c2 c3 c4 c5 show ?thesis by blast
qed





lemma load_handled_cases:
  "load (Present (Parsed v)) = Inr v
   \<and> load Missing = Inr (JDict [(''last_check'', JNull), (''slots'', JList []), (''checks'', JList [])])
   \<and> load (Present (ReadFails JSONDecodeError)) = load Missing
   \<and> load (Present (ReadFails IOError)) = load Missing"
  by (simp add: default_history_def)

text \<open>
  C7. The claim has \<open>load\<close> return the default snapshot, without raising, in every
  state in which the file does not parse. The handler names \<open>json.JSONDecodeError\<close> and
  \<open>IOError\<close> only: for a file whose bytes are not valid text, reading raises
  UnicodeDecodeError, and \<open>load\<close> raises it too instead of returning the default.
\<close>

theorem load_raises_on_undecodable_file:
  "load (Present (ReadFails UnicodeDecodeError)) = Inl UnicodeDecodeError
   \<and> load (Present (ReadFails UnicodeDecodeError)) \<noteq> Inr default_history
   \<and> load (Present (ReadFails JSONDecodeError)) = Inr default_history"
  by simp




text \<open>
  C10. Frame of \<open>update\<close> without a raw response: the newly written snapshot sets
  \<open>last_check\<close>, \<open>slots\<close> and \<open>checks\<close>, and every other top-level key of the
  loaded snapshot (a \<open>last_raw_response\<close> stored earlier, for one) keeps its value.
  When the write fails, its exception leaves \<open>update\<close> and no snapshot is written.
\<close>

theorem update_keeps_other_keys:
  assumes "persisted_checks hf = Some cs"
  shows "(\<exists>h h'. load hf = Inr (JDict h) \<and>
           update now1 now2 WriteOk hf sl None = Inr (Present (Parsed (JDict h'))) \<and>
           map_of h' ''last_check'' = Some (JStr now2) \<and>
           map_of h' ''slots'' = Some (JList (map to_dict sl)) \<and>
           map_of h' ''checks'' = Some (JList (last_n 100 (cs @ [check_record now1 sl]))) \<and>
           (\<forall>k. k \<notin> {''last_check'', ''slots'', ''checks''} \<longrightarrow> map_of h' k = map_of h k))
         \<and> update now1 now2 (WriteFails e) hf sl None = Inl e"
proof -
  from update_result [OF assms, where ?now1.0 = now1 and ?now2.0 = now2 and sl = sl
        and raw = None]
  obtain h h' where r: "load hf = Inr (JDict h) \<and>
    (\<forall>w. update now1 now2 w hf sl None = save w (JDict h')) \<and>
    map_of h' ''checks'' = Some (JList (last_n 100 (cs @ [check_record now1 sl]))) \<and>
    map_of h' ''last_check'' = Some (JStr now2) \<and>
    map_of h' ''slots'' = Some (JList (map to_dict sl)) \<and>
    (\<forall>k. k \<notin> {''last_check'', ''slots'', ''checks'', ''last_raw_response''}
            \<longrightarrow> map_of h' k = map_of h k) \<and>
    (None = (None :: json option) \<longrightarrow>
       map_of h' ''last_raw_response'' = map_of h ''last_raw_response'')"
    by (elim exE)
  from r have ld: "load hf = Inr (JDict h)" by simp
  from r have u: "update now1 now2 w hf sl None = save w (JDict h')" for w by simp
  from r have c: "map_of h' ''checks'' = Some (JList (last_n 100 (cs @ [check_record now1 sl])))"
    by simp
  from r have lc: "map_of h' ''last_check'' = Some (JStr now2)" by simp
  from r have sl: "map_of h' ''slots'' = Some (JList (map to_dict sl))" by simp
  from r have o: "k \<notin> {''last_check'', ''slots'', ''checks'', ''last_raw_response''}
            \<Longrightarrow> map_of h' k = map_of h k" for k by simp
  from r have l: "map_of h' ''last_raw_response'' = map_of h ''last_raw_response''" by simp
  have f: "\<forall>k. k \<notin> {''last_check'', ''slots'', ''checks''} \<longrightarrow> map_of h' k = map_of h k"
  proof (intro allI impI)
    fix k :: string
    assume k: "k \<notin> {''last_check'', ''slots'', ''checks''}"
    show "map_of h' k = map_of h k"
    proof (cases "k = ''last_raw_response''")
      case True
      with l show ?thesis by simp
    next
      case False
      with k o [of k] show ?thesis by simp
    qed
  qed
  have ok: "update now1 now2 WriteOk hf sl None = Inr (Present (Parsed (JDict h')))"
    by (simp add: u save_def)
  have bad: "update now1 now2 (WriteFails e) hf sl None = Inl e"
    by (simp add: u save_def)
  from ld ok lc sl c f have "load hf = Inr (JDict h) \<and>
           update now1 now2 WriteOk hf sl None = Inr (Present (Parsed (JDict h'))) \<and>
           map_of h' ''last_check'' = Some (JStr now2) \<and>
           map_of h' ''slots'' = Some (JList (map to_dict sl)) \<and>
           map_of h' ''checks'' = Some (JList (last_n 100 (cs @ [check_record now1 sl]))) \<and>
           (\<forall>k. k \<notin> {''last_check'', ''slots'', ''checks''} \<longrightarrow> map_of h' k = map_of h k)"
    by (intro conjI)
  then have "\<exists>h h'. load hf = Inr (JDict h) \<and>
           update now1 now2 WriteOk hf sl None = Inr (Present (Parsed (JDict h'))) \<and>
           map_of h' ''last_check'' = Some (JStr now2) \<and>
           map_of h' ''slots'' = Some (JList (map to_dict sl)) \<and>
           map_of h' ''checks'' = Some (JList (last_n 100 (cs @ [check_record now1 sl]))) \<and>
           (\<forall>k. k \<notin> {''last_check'', ''slots'', ''checks''} \<longrightarrow> map_of h' k = map_of h k)"
    by (intro exI)
  with bad show ?thesis by (intro conjI)
qed

theorem update_keeps_other_keys_witness:
  "\<exists>h'. update ''2026-08-05T08:00:00.000001'' ''2026-08-05T08:00:00.000002'' WriteOk
          history_b [slot_a] None
          = Inr (Present (Parsed (JDict h'))) \<and>
        map_of h' ''last_raw_response'' = Some (JDict [(''Slots'', JList [])]) \<and>
        map_of h' ''last_check'' = Some (JStr ''2026-08-05T08:00:00.000002'')"
proof -
  have p: "persisted_checks history_b = Some [JDict [(''timestamp'', JStr ''2026-08-04T08:00:00.000001''),
                                 (''slot_count'', JInt 0)]]"
    by (simp add: persisted_checks_def history_b_def)
  have n: "''last_raw_response'' \<notin> {''last_check'', ''slots'', ''checks''}" by simp
  from update_keeps_other_keys [OF p, where ?now1.0 = "''2026-08-05T08:00:00.000001''"
      and ?now2.0 = "''2026-08-05T08:00:00.000002''" and sl = "[slot_a]" and e = IOError,
      THEN conjunct1]
  obtain h h' where r: "load history_b = Inr (JDict h) \<and>
    update ''2026-08-05T08:00:00.000001'' ''2026-08-05T08:00:00.000002'' WriteOk history_b [slot_a] None
          = Inr (Present (Parsed (JDict h'))) \<and>
    map_of h' ''last_check'' = Some (JStr ''2026-08-05T08:00:00.000002'') \<and>
    map_of h' ''slots'' = Some (JList (map to_dict [slot_a])) \<and>
    map_of h' ''checks'' = Some (JList (last_n 100
       ([JDict [(''timestamp'', JStr ''2026-08-04T08:00:00.000001''), (''slot_count'', JInt 0)]]
        @ [check_record ''2026-08-05T08:00:00.000001'' [slot_a]]))) \<and>
    (\<forall>k. k \<notin> {''last_check'', ''slots'', ''checks''} \<longrightarrow> map_of h' k = map_of h k)"
    by (elim exE)
  note r1 = r [THEN conjunct1]
    and r2 = r [THEN conjunct2, THEN conjunct1]
    and r3 = r [THEN conjunct2, THEN conjunct2, THEN conjunct1]
    and r6 = r [THEN conjunct2, THEN conjunct2, THEN conjunct2, THEN conjunct2, THEN conjunct2]
  from r1 have "h = [(''last_check'', JStr ''2026-08-04T08:00:00.000002''), (''slots'', JList []),
      (''checks'', JList [JDict [(''timestamp'', JStr ''2026-08-04T08:00:00.000001''),
                                 (''slot_count'', JInt 0)]]),
      (''last_raw_response'', JDict [(''Slots'', JList [])])]"
    by (simp add: history_b_def)
  then have "map_of h ''last_raw_response'' = Some (JDict [(''Slots'', JList [])])"
    by simp
  moreover from r6 have "''last_raw_response'' \<notin> {''last_check'', ''slots'', ''checks''}
      \<longrightarrow> map_of h' ''last_raw_response'' = map_of h ''last_raw_response''" ..
  ultimately have "map_of h' ''last_raw_response'' = Some (JDict [(''Slots'', JList [])])"
    using n by simp
  with r2 r3 have "update ''2026-08-05T08:00:00.000001'' ''2026-08-05T08:00:00.000002'' WriteOk
          history_b [slot_a] None
          = Inr (Present (Parsed (JDict h'))) \<and>
        map_of h' ''last_raw_response'' = Some (JDict [(''Slots'', JList [])]) \<and>
        map_of h' ''last_check'' = Some (JStr ''2026-08-05T08:00:00.000002'')"
    by (intro conjI)
  then show ?thesis by (intro exI)
qed

section \<open>Properties of the notification body\<close>

lemma keys_dict_setitem:
  "map fst (dict_setitem kvs k v) = (if k \<in> set (map fst kvs) then map fst kvs else map fst kvs @ [k])"
  by (induction kvs k v rule: dict_setitem.induct) auto

lemma map_of_group_add:
  "map_of (group_add g s) d =
     (if d = date s then Some ((case map_of g d of None \<Rightarrow> [] | Some ss \<Rightarrow> ss) @ [s])
      else map_of g d)"
  by (auto simp: group_add_def Let_def map_of_dict_setitem dict_getitem_def)

lemma keys_group_add:
  "map fst (group_add g s) =
     (if date s \<in> set (map fst g) then map fst g else map fst g @ [date s])"
proof (cases "map_of g (date s) = None")
  case True
  then have n: "date s \<notin> set (map fst g)"
    by (simp add: map_of_eq_None_iff)
  have "map fst (dict_setitem (dict_setitem g (date s) []) (date s) v) = map fst g @ [date s]" for v
    using n by (simp add: keys_dict_setitem)
  with True n show ?thesis
    by (simp add: group_add_def Let_def)
next
  case False
  then have n: "date s \<in> set (map fst g)"
    by (simp add: map_of_eq_None_iff)
  have "map fst (dict_setitem g (date s) v) = map fst g" for v
    using n by (simp add: keys_dict_setitem)
  moreover from False obtain y where "map_of g (date s) = Some y"
    by auto
  ultimately show ?thesis
    using n by (simp add: group_add_def Let_def)
qed

lemma group_by_date_snoc: "group_by_date (xs @ [x]) = group_add (group_by_date xs) x"
  by (simp add: group_by_date_def)

lemma group_by_date_keys:
  "distinct (map fst (group_by_date xs)) \<and> set (map fst (group_by_date xs)) = date ` set xs"
proof (induction xs rule: rev_induct)
  case Nil
  then show ?case by (simp add: group_by_date_def)
next
  case (snoc x xs)
  then show ?case
    by (auto simp: group_by_date_snoc keys_group_add)
qed

lemma filter_absent: "d \<notin> f ` set xs \<Longrightarrow> filter (\<lambda>s. f s = d) xs = []"
  by (induction xs) auto

lemma group_by_date_lookup:
  "map_of (group_by_date xs) d =
     (if d \<in> date ` set xs then Some (filter (\<lambda>s. date s = d) xs) else None)"
proof (induction xs rule: rev_induct)
  case Nil
  then show ?case by (simp add: group_by_date_def)
next
  case (snoc x xs)
  show ?case
  proof (cases "d = date x")
    case True
    show ?thesis
    proof (cases "d \<in> date ` set xs")
      case True
      with snoc \<open>d = date x\<close> show ?thesis
        by (simp add: group_by_date_snoc map_of_group_add)
    next
      case False
      with snoc \<open>d = date x\<close> filter_absent [of d date xs] show ?thesis
        by (simp add: group_by_date_snoc map_of_group_add)
    qed
  next
    case False
    with snoc show ?thesis
      by (simp add: group_by_date_snoc map_of_group_add)
  qed
qed

lemma sorted_groups_dates:
  "map fst (sorted_groups xs) = sort (map fst (group_by_date xs))"
  by (simp add: sorted_groups_def Let_def comp_def)

lemma sorted_groups_members:
  assumes "g \<in> set (sorted_groups xs)"
  shows "snd g = sort_key time (filter (\<lambda>s. date s = fst g) xs)"
proof -
  from assms obtain d where d: "d \<in> set (map fst (group_by_date xs))"
    and g: "g = (d, sort_key time (dict_getitem (group_by_date xs) d))"
    by (auto simp: sorted_groups_def Let_def)
  from d have "d \<in> date ` set xs"
    using group_by_date_keys [of xs] by simp
  then have "dict_getitem (group_by_date xs) d = filter (\<lambda>s. date s = d) xs"
    by (simp add: dict_getitem_def group_by_date_lookup)
  with g show ?thesis by simp
qed

text \<open>
  What the two loops of the body do, for every list of slots: there is one section per
  distinct date string, the sections are in strictly ascending order of the date
  strings (calendar order for ISO dates, which the dataclass asks for), and each section
  holds exactly the slots of its date, in ascending order of their time strings, equal
  times in input order.
\<close>

lemma sorted_groups_order:
  "sorted (map fst (sorted_groups slots))
   \<and> distinct (map fst (sorted_groups slots))
   \<and> set (map fst (sorted_groups slots)) = date ` set slots
   \<and> (\<forall>g \<in> set (sorted_groups slots).
         sorted (map time (snd g)) \<and>
         mset (snd g) = filter_mset (\<lambda>s. date s = fst g) (mset slots) \<and>
         snd g = sort_key time (filter (\<lambda>s. date s = fst g) slots))"
proof -
  have k: "distinct (map fst (group_by_date slots))"
    "set (map fst (group_by_date slots)) = date ` set slots"
    using group_by_date_keys [of slots] by simp_all
  have a: "sorted (map fst (sorted_groups slots))"
    by (simp only: sorted_groups_dates sorted_sort)
  have b: "distinct (map fst (sorted_groups slots))"
    using k(1) by (simp only: sorted_groups_dates distinct_sort)
  have c: "set (map fst (sorted_groups slots)) = date ` set slots"
    using k(2) by (simp only: sorted_groups_dates set_sort)
  have d: "sorted (map time (snd g)) \<and>
         mset (snd g) = filter_mset (\<lambda>s. date s = fst g) (mset slots) \<and>
         snd g = sort_key time (filter (\<lambda>s. date s = fst g) slots)"
    if "g \<in> set (sorted_groups slots)" for g
    using sorted_groups_members [OF that] by (simp add: sorted_sort_key)
  from d have d': "\<forall>g \<in> set (sorted_groups slots).
         sorted (map time (snd g)) \<and>
         mset (snd g) = filter_mset (\<lambda>s. date s = fst g) (mset slots) \<and>
         snd g = sort_key time (filter (\<lambda>s. date s = fst g) slots)"
    by blast
  from a b c d' show ?thesis
    by (intro conjI)
qed

text \<open>
  C8. The claim has each date section list its slots sorted by time of day. The code
  sorts them with \<open>key=lambda s: s.time\<close>, by the time strings, and the strings it gets
  are of the form \<open>8:30 AM\<close>: for two new slots on 2026-08-05, one at 8:30 AM and one at
  10:00 AM, the section of that date lists 10:00 AM first, which is not clock order.
  The whole body for that input is evaluated below.
\<close>

theorem issue_body_not_in_clock_order:
  "build_issue_body ''2026-08-01 00:00:00'' [slot_a, slot_b] =
     ''## New Appointment Slots Detected'' @ [CHR 0x0A] @ [CHR 0x0A] @
     ''**Detected at:** 2026-08-01 00:00:00 UTC'' @ [CHR 0x0A] @ [CHR 0x0A] @
     ''### Available Slots'' @ [CHR 0x0A] @ [CHR 0x0A] @
     ''#### 2026-08-05'' @ [CHR 0x0A] @
     ''- **10:00 AM** | Dept: Dental Center'' @ [CHR 0x0A] @
     ''- **8:30 AM** | Provider: Dr. Rai'' @ [CHR 0x0A] @ [CHR 0x0A] @
     str_join [CHR 0x0A] footer_lines
   \<and> sorted_groups [slot_a, slot_b] = [(''2026-08-05'', [slot_b, slot_a])]
   \<and> map time [slot_b, slot_a] = [''10:00 AM'', ''8:30 AM'']
   \<and> clock_minutes ''10:00 AM'' = Some 600
   \<and> clock_minutes ''8:30 AM'' = Some 510
   \<and> clock_sorted [slot_a, slot_b]
   \<and> \<not> clock_sorted [slot_b, slot_a]"
  by code_simp

end
